theory Spec2Isabelle
  imports Main "HOL-Library.AList"
begin

section \<open>The Go library functions that doculint calls\<close>

text \<open>
  A Go string is a sequence of bytes, hence a \<^typ>\<open>string\<close> here. The functions of the
  packages \<^verbatim>\<open>strings\<close> and \<^verbatim>\<open>fmt\<close> that the linter calls are written out on bytes.
  Two library behaviours rest on tables that are no part of the linter and stay
  parameters, collected in the record \<open>golib\<close>:
  \<^item> \<open>mapToLower\<close> is \<^verbatim>\<open>strings.Map(unicode.ToLower, s)\<close>, which \<^verbatim>\<open>strings.ToLower\<close>
    falls back on for a string with a byte outside ASCII;
  \<^item> \<open>formatVerbs\<close> is \<^verbatim>\<open>fmt.Sprintf(format)\<close> without operands for a format
    that holds a \<^verbatim>\<open>%\<close>.
\<close>

record golib =
  mapToLower :: "string \<Rightarrow> string"
  formatVerbs :: "string \<Rightarrow> string"

definition byte :: "char \<Rightarrow> nat" where
  "byte c = of_char c"

text \<open>\<^verbatim>\<open>strings.HasPrefix\<close>: \<^verbatim>\<open>len(s) >= len(prefix) && s[:len(prefix)] == prefix\<close>.\<close>

definition HasPrefix :: "string \<Rightarrow> string \<Rightarrow> bool" where
  "HasPrefix s pre = (length pre \<le> length s \<and> take (length pre) s = pre)"

text \<open>
  \<^verbatim>\<open>strings.ContainsAny(s, chars)\<close> asks for a code point of \<open>chars\<close> in \<open>s\<close>; its one
  call passes the ASCII characters \<^verbatim>\<open>_-\<close>, and an ASCII code point is in a string
  exactly when its byte is.
\<close>

definition ContainsAny :: "string \<Rightarrow> string \<Rightarrow> bool" where
  "ContainsAny s chars = list_ex (\<lambda>c. c \<in> set chars) s"

text \<open>
  \<^verbatim>\<open>strings.ToLower\<close>: a string of ASCII bytes has its letters \<^verbatim>\<open>A\<close> to \<^verbatim>\<open>Z\<close>
  moved to \<^verbatim>\<open>a\<close> to \<^verbatim>\<open>z\<close>; any other string goes through the Unicode tables.
\<close>

definition lowerASCII :: "char \<Rightarrow> char" where
  "lowerASCII c = (if 65 \<le> byte c \<and> byte c \<le> 90 then char_of (byte c + 32) else c)"

definition isASCII :: "string \<Rightarrow> bool" where
  "isASCII s = list_all (\<lambda>c. byte c < 128) s"

definition ToLower :: "golib \<Rightarrow> string \<Rightarrow> string" where
  "ToLower L s = (if isASCII s then map lowerASCII s else mapToLower L s)"

text \<open>
  \<^verbatim>\<open>strings.TrimSpace\<close> removes the leading and the trailing white space that
  \<^verbatim>\<open>unicode.IsSpace\<close> defines: tab, line feed, vertical tab, form feed, carriage
  return, space, U+0085, U+00A0, U+1680, U+2000 to U+200A, U+2028, U+2029, U+202F,
  U+205F and U+3000. \<open>spaceRunes\<close> lists their UTF-8 encodings. An encoding is
  stripped from the front while the string starts with one, and from the back while
  it ends with one (the first byte of an encoding is never a continuation byte,
  so the last code point of a string is white space exactly when the string ends
  with one of the encodings).
\<close>

definition spaceRunes :: "string list" where
  "spaceRunes =
    [[CHR 0x09], [CHR 0x0A], [CHR 0x0B], [CHR 0x0C], [CHR 0x0D], [CHR 0x20],
     [CHR 0xC2, CHR 0x85], [CHR 0xC2, CHR 0xA0],
     [CHR 0xE1, CHR 0x9A, CHR 0x80],
     [CHR 0xE2, CHR 0x80, CHR 0x80], [CHR 0xE2, CHR 0x80, CHR 0x81],
     [CHR 0xE2, CHR 0x80, CHR 0x82], [CHR 0xE2, CHR 0x80, CHR 0x83],
     [CHR 0xE2, CHR 0x80, CHR 0x84], [CHR 0xE2, CHR 0x80, CHR 0x85],
     [CHR 0xE2, CHR 0x80, CHR 0x86], [CHR 0xE2, CHR 0x80, CHR 0x87],
     [CHR 0xE2, CHR 0x80, CHR 0x88], [CHR 0xE2, CHR 0x80, CHR 0x89],
     [CHR 0xE2, CHR 0x80, CHR 0x8A],
     [CHR 0xE2, CHR 0x80, CHR 0xA8], [CHR 0xE2, CHR 0x80, CHR 0xA9],
     [CHR 0xE2, CHR 0x80, CHR 0xAF], [CHR 0xE2, CHR 0x81, CHR 0x9F],
     [CHR 0xE3, CHR 0x80, CHR 0x80]]"

function trimLeftRunes :: "string list \<Rightarrow> string \<Rightarrow> string" where
  "trimLeftRunes encs s =
     (case find (\<lambda>e. e \<noteq> [] \<and> HasPrefix s e) encs of
        None \<Rightarrow> s
      | Some e \<Rightarrow> trimLeftRunes encs (drop (length e) s))"
  by pat_completeness auto
termination
proof (relation "measure (\<lambda>(encs, s). length s)")
  show "wf (measure (\<lambda>(encs, s). length s))"
    by simp
next
  fix encs :: "string list" and s e :: string
  assume "find (\<lambda>e. e \<noteq> [] \<and> HasPrefix s e) encs = Some e"
  then have "e \<noteq> [] \<and> HasPrefix s e"
    by (auto simp: find_Some_iff)
  then have "length (drop (length e) s) < length s"
    by (cases e) (auto simp: HasPrefix_def)
  then show "((encs, drop (length e) s), (encs, s)) \<in> measure (\<lambda>(encs, s). length s)"
    by simp
qed

definition TrimSpace :: "string \<Rightarrow> string" where
  "TrimSpace s = rev (trimLeftRunes (map rev spaceRunes) (rev (trimLeftRunes spaceRunes s)))"

text \<open>\<^verbatim>\<open>strings.Join\<close>.\<close>

fun Join :: "string list \<Rightarrow> string \<Rightarrow> string" where
  "Join [] sep = []"
| "Join [a] sep = a"
| "Join (a # b # bs) sep = a @ sep @ Join (b # bs) sep"

section \<open>The package name validator\<close>

text \<open>
  \<^verbatim>\<open>validatePackageName\<close> returns the message of the rule the name breaks, and the
  empty string for a name that breaks none.
\<close>

definition separatorMessage :: "string \<Rightarrow> string" where
  "separatorMessage pkg = ''package \"'' @ pkg @ ''\" should not contain - or _ in name''"

definition lowercaseMessage :: "string \<Rightarrow> string" where
  "lowercaseMessage pkg = ''package \"'' @ pkg @ ''\" should be all lowercase''"

definition validatePackageName :: "golib \<Rightarrow> string \<Rightarrow> string" where
  "validatePackageName L pkg =
     (if ContainsAny pkg ''_-'' then separatorMessage pkg
      else if pkg \<noteq> ToLower L pkg then lowercaseMessage pkg
      else [])"

section \<open>Syntax trees, diagnostics and the analysis pass\<close>

text \<open>
  \<^verbatim>\<open>token.Pos\<close> is an integer and \<^verbatim>\<open>token.NoPos\<close> is 0; \<^verbatim>\<open>IsValid\<close> tells them apart.
\<close>

type_synonym pos = int

definition IsValid :: "pos \<Rightarrow> bool" where
  "IsValid p = (p \<noteq> 0)"

text \<open>Some of the constants of \<^verbatim>\<open>token.Token\<close>: \<open>tok_CONST\<close> is \<^verbatim>\<open>token.CONST\<close>, and so on.\<close>

datatype token =
    tok_IMPORT | tok_CONST | tok_TYPE | tok_VAR
  | tok_EQL | tok_NEQ | tok_LSS | tok_GTR | tok_LEQ | tok_GEQ | tok_LAND | tok_LOR
  | tok_ADD | tok_SUB | tok_MUL | tok_QUO | tok_REM

datatype ident = Ident (NamePos: pos) (Name: string)

text \<open>
  The nodes of \<^verbatim>\<open>go/ast\<close>. The kinds that the linter looks at have a constructor of
  their own, with the fields it reads and the children \<^verbatim>\<open>ast.Walk\<close> descends into;
  \<open>Other\<close> is a node of any other kind (a block, a loop, an assignment, a function
  literal and so on) with its children. A doc comment, a \<^verbatim>\<open>*ast.CommentGroup\<close> that
  may be \<^verbatim>\<open>nil\<close>, is the optional string that its method \<^verbatim>\<open>Text\<close> returns.
  \<^item> \<open>FuncDecl doc recv name p type body\<close>, where \<open>p\<close> is what \<^verbatim>\<open>Pos()\<close> returns;
  \<^item> \<open>IfStmt init cond body else\<close>;
  \<^item> \<open>GenDecl doc tokPos tok lparen specs\<close>, whose \<^verbatim>\<open>Pos()\<close> is \<open>tokPos\<close>;
  \<^item> \<open>ValueSpec doc names type values\<close>, whose \<^verbatim>\<open>Pos()\<close> is that of its first name;
  \<^item> \<open>TypeSpec doc name type\<close>, whose \<^verbatim>\<open>Pos()\<close> is that of its name;
  \<^item> \<open>BasicLit valuePos value\<close> and \<open>BinaryExpr x op y\<close>.
\<close>

datatype node =
    CommentGroup string
  | IdentNode ident
  | BasicLit pos string
  | BinaryExpr node token node
  | ParenExpr node
  | CallExpr node "node list"
  | FuncDecl "string option" "node option" ident pos node "node option"
  | IfStmt "node option" node node "node option"
  | GenDecl "string option" pos token pos "node list"
  | ValueSpec "string option" "ident list" "node option" "node list"
  | TypeSpec "string option" ident node
  | Other "node list"

text \<open>An \<^verbatim>\<open>*ast.File\<close>: its doc comment, the identifier of its package clause, its declarations.\<close>

record File =
  file_Doc :: "string option"
  file_Name :: ident
  file_Decls :: "node list"

text \<open>
  What the linter reads of an \<^verbatim>\<open>*analysis.Pass\<close>: \<^verbatim>\<open>pass.Pkg.Name()\<close> and \<^verbatim>\<open>pass.Files\<close>.
\<close>

record Pass =
  Pkg_Name :: string
  Files :: "File list"

datatype Diagnostic = Diagnostic (Pos: pos) (Message: string)

text \<open>The run-time panic of an index out of range.\<close>

datatype error = IndexOutOfRange

section \<open>The traversal of \<^verbatim>\<open>ast.Inspect\<close>\<close>

definition docNode :: "string option \<Rightarrow> node list" where
  "docNode doc = (case doc of None \<Rightarrow> [] | Some text \<Rightarrow> [CommentGroup text])"

definition optNode :: "node option \<Rightarrow> node list" where
  "optNode n = (case n of None \<Rightarrow> [] | Some c \<Rightarrow> [c])"

text \<open>The children of a node, in the order in which \<^verbatim>\<open>ast.Walk\<close> visits them.\<close>

fun children :: "node \<Rightarrow> node list" where
  "children (CommentGroup text) = []"
| "children (IdentNode i) = []"
| "children (BasicLit p v) = []"
| "children (BinaryExpr x op y) = [x, y]"
| "children (ParenExpr x) = [x]"
| "children (CallExpr f args) = f # args"
| "children (FuncDecl doc recv name p type body) =
     docNode doc @ optNode recv @ [IdentNode name, type] @ optNode body"
| "children (IfStmt init cond body els) = optNode init @ [cond, body] @ optNode els"
| "children (GenDecl doc tokPos tok lparen specs) = docNode doc @ specs"
| "children (ValueSpec doc names type values) =
     docNode doc @ map IdentNode names @ optNode type @ values"
| "children (TypeSpec doc name type) = docNode doc @ [IdentNode name, type]"
| "children (Other ns) = ns"

text \<open>
  Running the parts of a traversal one after the other: the diagnostics add up, and the
  first panic ends the run.
\<close>

fun collect :: "(error + Diagnostic list) list \<Rightarrow> error + Diagnostic list" where
  "collect [] = Inr []"
| "collect (r # rs) =
     (case r of
        Inl e \<Rightarrow> Inl e
      | Inr ds \<Rightarrow> (case collect rs of Inl e \<Rightarrow> Inl e | Inr ds' \<Rightarrow> Inr (ds @ ds')))"

lemma size_member: "c \<in> set ns \<Longrightarrow> size c \<le> size_list size ns"
  for c :: node
  by (simp add: size_list_estimation')

lemma children_size: "c \<in> set (children n) \<Longrightarrow> size c < size n"
  by (cases n) (auto simp: docNode_def optNode_def less_Suc_eq_le
      split: option.splits dest!: size_member)

text \<open>
  \<^verbatim>\<open>ast.Inspect(n, f)\<close> calls \<open>f\<close> on the node and, when \<open>f\<close> returns \<^verbatim>\<open>true\<close>, goes
  through the children. (The closing call \<^verbatim>\<open>f(nil)\<close> reaches the \<^verbatim>\<open>default\<close> case of
  the linter's switch and reports nothing.)
\<close>

function inspect :: "(node \<Rightarrow> error + Diagnostic list \<times> bool) \<Rightarrow> node \<Rightarrow> error + Diagnostic list" where
  "inspect f n =
     (case f n of
        Inl e \<Rightarrow> Inl e
      | Inr (ds, descend) \<Rightarrow>
          if descend
          then (case collect (map (inspect f) (children n)) of
                  Inl e \<Rightarrow> Inl e
                | Inr ds' \<Rightarrow> Inr (ds @ ds'))
          else Inr ds)"
  by pat_completeness auto
termination
  by (relation "measure (\<lambda>(f, n). size n)") (auto simp: children_size)

declare inspect.simps [simp del]

section \<open>The linter\<close>

subsection \<open>Messages\<close>

definition packageNoComment :: "string \<Rightarrow> string" where
  "packageNoComment pkg =
     ''package \"'' @ pkg @ ''\" has no comment associated with it in \"'' @ pkg @ ''.go\"''"

definition packageCommentPrefix :: "string \<Rightarrow> string \<Rightarrow> string" where
  "packageCommentPrefix pkg expectedPrefix =
     ''comment for package \"'' @ pkg @ ''\" should begin with \"'' @ expectedPrefix @ ''\"''"

definition packageNoFile :: "string \<Rightarrow> string" where
  "packageNoFile pkg =
     ''package \"'' @ pkg @ ''\" has no file with the same name containing package comment''"

definition functionNoComment :: "string \<Rightarrow> string" where
  "functionNoComment name = ''function \"'' @ name @ ''\" has no comment associated with it''"

definition functionCommentPrefix :: "string \<Rightarrow> string" where
  "functionCommentPrefix name =
     ''comment for function \"'' @ name @ ''\" should begin with \"'' @ name @ ''\"''"

definition literalInConditional :: string where
  "literalInConditional = ''literal found in conditional''"

definition constantBlockNoComment :: string where
  "constantBlockNoComment = ''constant block has no comment associated with it''"

definition constantsSeparated :: "string \<Rightarrow> string" where
  "constantsSeparated names =
     ''constants \"'' @ names
       @ ''\" should be separated and each have a comment associated with them''"

definition constantNoComment :: "string \<Rightarrow> string" where
  "constantNoComment name = ''constant \"'' @ name @ ''\" has no comment associated with it''"

definition constantCommentPrefix :: "string \<Rightarrow> string" where
  "constantCommentPrefix name =
     ''comment for constant \"'' @ name @ ''\" should begin with \"'' @ name @ ''\"''"

definition typeBlockNoComment :: string where
  "typeBlockNoComment = ''type block has no comment associated with it''"

definition typeNoComment :: "string \<Rightarrow> string" where
  "typeNoComment name = ''type \"'' @ name @ ''\" has no comment associated with it''"

definition typeCommentPrefix :: "string \<Rightarrow> string" where
  "typeCommentPrefix name =
     ''comment for type \"'' @ name @ ''\" should begin with \"'' @ name @ ''\"''"

subsection \<open>The function passed to \<^verbatim>\<open>ast.Inspect\<close>\<close>

text \<open>The two tests of an operand of the condition: \<^verbatim>\<open>be.X.(*ast.BasicLit)\<close>, and the same for \<^verbatim>\<open>be.Y\<close>.\<close>

definition literalOperand :: "node \<Rightarrow> Diagnostic list" where
  "literalOperand operand =
     (case operand of
        BasicLit p v \<Rightarrow> [Diagnostic p literalInConditional]
      | _ \<Rightarrow> [])"

text \<open>
  One round of the loop over the specifications of a constant declaration. A
  specification that is no \<^verbatim>\<open>*ast.ValueSpec\<close> is passed over; \<^verbatim>\<open>vs.Names[0]\<close> panics
  on a specification without names.
\<close>

definition constSpec :: "pos \<Rightarrow> string option \<Rightarrow> node \<Rightarrow> error + Diagnostic list" where
  "constSpec lparen declDoc spec =
     (case spec of
        ValueSpec specDoc names type values \<Rightarrow>
          if length names > 1
          then Inr [Diagnostic (NamePos (hd names))
                      (constantsSeparated (Join (map Name names) '', ''))]
          else (case names of
                  [] \<Rightarrow> Inl IndexOutOfRange
                | first # others \<Rightarrow>
                    (let name = Name first;
                         doc = (if \<not> IsValid lparen then declDoc else specDoc)
                     in case doc of
                          None \<Rightarrow> Inr [Diagnostic (NamePos first) (constantNoComment name)]
                        | Some text \<Rightarrow>
                            if \<not> HasPrefix (TrimSpace text) name
                            then Inr [Diagnostic (NamePos first) (constantCommentPrefix name)]
                            else Inr []))
      | _ \<Rightarrow> Inr [])"

text \<open>One round of the loop over the specifications of a type declaration.\<close>

definition typeSpec :: "pos \<Rightarrow> string option \<Rightarrow> node \<Rightarrow> Diagnostic list" where
  "typeSpec lparen declDoc spec =
     (case spec of
        TypeSpec specDoc name type \<Rightarrow>
          (let doc = (if \<not> IsValid lparen then declDoc else specDoc)
           in case doc of
                None \<Rightarrow> [Diagnostic (NamePos name) (typeNoComment (Name name))]
              | Some text \<Rightarrow>
                  if \<not> HasPrefix (TrimSpace text) (Name name)
                  then [Diagnostic (NamePos name) (typeCommentPrefix (Name name))]
                  else [])
      | _ \<Rightarrow> [])"

text \<open>
  The function literal that \<^verbatim>\<open>doculint\<close> passes to \<^verbatim>\<open>ast.Inspect\<close>, for the package
  named \<open>pkg\<close>: the diagnostics it reports at a node, and the boolean it returns.
\<close>

fun visit :: "string \<Rightarrow> node \<Rightarrow> error + Diagnostic list \<times> bool" where
  "visit pkg (FuncDecl doc recv name p type body) =
     (if pkg = ''main'' \<and> Name name = ''main'' then Inr ([], True)
      else if Name name = ''init'' then Inr ([], True)
      else (case doc of
              None \<Rightarrow> Inr ([Diagnostic p (functionNoComment (Name name))], True)
            | Some text \<Rightarrow>
                if \<not> HasPrefix (TrimSpace text) (Name name)
                then Inr ([Diagnostic p (functionCommentPrefix (Name name))], True)
                else Inr ([], True)))"
| "visit pkg (IfStmt init cond body els) =
     (case cond of
        BinaryExpr x op y \<Rightarrow> Inr (literalOperand x @ literalOperand y, True)
      | _ \<Rightarrow> Inr ([], True))"
| "visit pkg (GenDecl doc tokPos tok lparen specs) =
     (if tok = tok_CONST
      then (case collect (map (constSpec lparen doc) specs) of
              Inl e \<Rightarrow> Inl e
            | Inr ds \<Rightarrow>
                Inr ((if IsValid lparen \<and> doc = None
                      then [Diagnostic tokPos constantBlockNoComment] else []) @ ds, True))
      else if tok = tok_TYPE
      then Inr ((if IsValid lparen \<and> doc = None
                 then [Diagnostic tokPos typeBlockNoComment] else [])
                @ concat (map (typeSpec lparen doc) specs), True)
      else Inr ([], True))"
| "visit pkg n = Inr ([], True)"

subsection \<open>The run over the files of a package\<close>

text \<open>
  The map \<^verbatim>\<open>packageWithSameNameFile\<close> is an association list, and the loop over it at
  the end of the run follows the list (Go leaves the order of a map's keys open).
\<close>

type_synonym packageMap = "(string \<times> bool) list"

text \<open>The first part of the loop over the files: lines 33 to 54.\<close>

definition packageComment :: "string \<Rightarrow> File \<Rightarrow> packageMap \<Rightarrow> Diagnostic list \<times> packageMap" where
  "packageComment pkg file m =
     (if pkg \<noteq> ''main''
      then (let m1 = (if map_of m pkg = None then AList.update pkg False m else m)
            in if Name (file_Name file) = pkg
               then (let m2 = AList.update pkg True m1
                     in case file_Doc file of
                          None \<Rightarrow> ([Diagnostic 0 (packageNoComment pkg)], m2)
                        | Some text \<Rightarrow>
                            (let expectedPrefix = ''Package '' @ pkg
                             in if \<not> HasPrefix (TrimSpace text) expectedPrefix
                                then ([Diagnostic 0 (packageCommentPrefix pkg expectedPrefix)], m2)
                                else ([], m2)))
               else ([], m1))
      else ([], m))"

text \<open>
  \<^verbatim>\<open>ast.Inspect(file, ...)\<close>: the file node itself falls to the \<^verbatim>\<open>default\<close> case; its
  children are its doc comment, the identifier of its package clause and its
  declarations.
\<close>

definition inspectFile :: "string \<Rightarrow> File \<Rightarrow> error + Diagnostic list" where
  "inspectFile pkg file =
     collect (map (inspect (visit pkg))
       (docNode (file_Doc file) @ [IdentNode (file_Name file)] @ file_Decls file))"

fun filesLoop :: "string \<Rightarrow> File list \<Rightarrow> packageMap \<Rightarrow> error + Diagnostic list \<times> packageMap" where
  "filesLoop pkg [] m = Inr ([], m)"
| "filesLoop pkg (file # files) m =
     (case packageComment pkg file m of
        (ds1, m1) \<Rightarrow>
          (case inspectFile pkg file of
             Inl e \<Rightarrow> Inl e
           | Inr ds2 \<Rightarrow>
               (case filesLoop pkg files m1 of
                  Inl e \<Rightarrow> Inl e
                | Inr (ds3, m2) \<Rightarrow> Inr (ds1 @ ds2 @ ds3, m2))))"

text \<open>The loop over the map at the end of the run: lines 167 to 171.\<close>

definition packagesWithoutFile :: "packageMap \<Rightarrow> Diagnostic list" where
  "packagesWithoutFile m =
     concat (map (\<lambda>pkg. if map_of m pkg = Some False
                         then [Diagnostic 0 (packageNoFile pkg)] else [])
                 (map fst m))"

text \<open>
  \<^verbatim>\<open>pass.Reportf(0, msg)\<close> takes the message of the name validator as its format and
  has no operands: a format without \<^verbatim>\<open>%\<close> is printed as it is.
\<close>

definition reportPackageName :: "golib \<Rightarrow> string \<Rightarrow> Diagnostic list" where
  "reportPackageName L pkg =
     (let msg = validatePackageName L pkg
      in if msg \<noteq> []
         then [Diagnostic 0 (if CHR ''%'' \<in> set msg then formatVerbs L msg else msg)]
         else [])"

text \<open>The diagnostics of a run of \<^verbatim>\<open>doculint\<close>, in the order of their report, or its panic.\<close>

definition doculint :: "golib \<Rightarrow> Pass \<Rightarrow> error + Diagnostic list" where
  "doculint L pass =
     (case filesLoop (Pkg_Name pass) (Files pass) [] of
        Inl e \<Rightarrow> Inl e
      | Inr (ds, m) \<Rightarrow> Inr (reportPackageName L (Pkg_Name pass) @ ds @ packagesWithoutFile m))"

section \<open>Notions used in the statements\<close>

text \<open>An operand that is itself a basic literal, a \<^verbatim>\<open>*ast.BasicLit\<close>.\<close>

definition isBasicLit :: "node \<Rightarrow> bool" where
  "isBasicLit n = (case n of BasicLit p v \<Rightarrow> True | _ \<Rightarrow> False)"

text \<open>A specification that, when it is a \<^verbatim>\<open>*ast.ValueSpec\<close>, declares a name at least.\<close>

definition hasName :: "node \<Rightarrow> bool" where
  "hasName spec = (case spec of ValueSpec doc names ty vals \<Rightarrow> names \<noteq> [] | _ \<Rightarrow> True)"

section \<open>Inputs for the examples\<close>

text \<open>
  A library for inputs that are ASCII and hold no \<^verbatim>\<open>%\<close>: there neither of its functions
  is called.
\<close>

definition plainLib :: golib where
  "plainLib = \<lparr>mapToLower = (\<lambda>s. s), formatVerbs = (\<lambda>s. s)\<rparr>"

text \<open>The operands \<^verbatim>\<open>x\<close>, \<^verbatim>\<open>y\<close>, \<^verbatim>\<open>5\<close> and \<^verbatim>\<open>7\<close>, and an empty block.\<close>

definition identX :: node where
  "identX = IdentNode (Ident 30 ''x'')"

definition identY :: node where
  "identY = IdentNode (Ident 35 ''y'')"

definition literal5 :: node where
  "literal5 = BasicLit 35 ''5''"

definition literal7 :: node where
  "literal7 = BasicLit 30 ''7''"

definition emptyBlock :: node where
  "emptyBlock = Other []"

text \<open>\<^verbatim>\<open>if x == 5 {}\<close>, and the loop \<^verbatim>\<open>for 7 < y {}\<close>.\<close>

definition ifXEquals5 :: node where
  "ifXEquals5 = IfStmt None (BinaryExpr identX tok_EQL literal5) emptyBlock None"

definition forLoop :: node where
  "forLoop = Other [BinaryExpr literal7 tok_LSS identY, emptyBlock]"

text \<open>
  \<^verbatim>\<open>func foo() {}\<close> under a given doc comment, and the functions \<^verbatim>\<open>init\<close> and
  \<^verbatim>\<open>main\<close> without a doc comment, with \<^verbatim>\<open>if x == 5 {}\<close> for a body.
\<close>

definition funcFoo :: "string option \<Rightarrow> node" where
  "funcFoo doc = FuncDecl doc None (Ident 6 ''foo'') 1 (Other []) (Some emptyBlock)"

definition funcInit :: node where
  "funcInit = FuncDecl None None (Ident 6 ''init'') 1 (Other []) (Some (Other [ifXEquals5]))"

definition funcMain :: node where
  "funcMain = FuncDecl None None (Ident 6 ''main'') 1 (Other []) (Some (Other [ifXEquals5]))"

section \<open>Properties of the package name validator\<close>

lemma ContainsAny_separators:
  "ContainsAny pkg ''_-'' = (CHR ''-'' \<in> set pkg \<or> CHR ''_'' \<in> set pkg)"
  by (auto simp: ContainsAny_def list_ex_iff)

lemma lowerASCII_fixed: "(lowerASCII c = c) = (\<not> (65 \<le> byte c \<and> byte c \<le> 90))"
proof (cases "65 \<le> byte c \<and> byte c \<le> 90")
  case True
  then have "byte (char_of (byte c + 32)) = byte c + 32"
    by (simp add: byte_def)
  then have "char_of (byte c + 32) \<noteq> c"
    by auto
  with True show ?thesis
    by (simp add: lowerASCII_def)
next
  case False
  then show ?thesis
    by (auto simp: lowerASCII_def)
qed

lemma map_fixed: "(map f xs = xs) = (\<forall>x\<in>set xs. f x = x)"
  by (induction xs) auto

lemma ToLower_ASCII:
  "isASCII s \<Longrightarrow> (s = ToLower L s) = (\<forall>c\<in>set s. \<not> (65 \<le> byte c \<and> byte c \<le> 90))"
  using map_fixed [of lowerASCII s] by (auto simp: ToLower_def lowerASCII_fixed)

text \<open>
  Claim C6. The name validator is a function of the name alone, defined on every string,
  and returns one message at most, its rules tried in a fixed order: a name with a hyphen
  or an underscore gets the separator message, whatever its letters; a name without
  either that differs from its lower-case form gets the lower-case message; a name
  without either that equals its lower-case form gets the empty string, that is no
  violation. The two messages differ from each other and from the empty string. For an
  ASCII name, to equal the lower-case form is to hold none of the letters A to Z.
\<close>

theorem validatePackageName_rules:
  "(CHR ''-'' \<in> set pkg \<or> CHR ''_'' \<in> set pkg
      \<longrightarrow> validatePackageName L pkg = separatorMessage pkg)
   \<and> (CHR ''-'' \<notin> set pkg \<and> CHR ''_'' \<notin> set pkg \<and> pkg \<noteq> ToLower L pkg
      \<longrightarrow> validatePackageName L pkg = lowercaseMessage pkg)
   \<and> (CHR ''-'' \<notin> set pkg \<and> CHR ''_'' \<notin> set pkg \<and> pkg = ToLower L pkg
      \<longrightarrow> validatePackageName L pkg = [])
   \<and> (isASCII pkg
      \<longrightarrow> (pkg = ToLower L pkg) = (\<forall>c\<in>set pkg. \<not> (65 \<le> byte c \<and> byte c \<le> 90)))
   \<and> separatorMessage pkg \<noteq> lowercaseMessage pkg
   \<and> separatorMessage pkg \<noteq> [] \<and> lowercaseMessage pkg \<noteq> []"
  by (simp add: validatePackageName_def ContainsAny_separators ToLower_ASCII
      separatorMessage_def lowercaseMessage_def)

theorem validatePackageName_rules_witness:
  "validatePackageName plainLib ''my_Pkg'' = separatorMessage ''my_Pkg''
   \<and> validatePackageName plainLib ''myPkg'' = lowercaseMessage ''myPkg''
   \<and> validatePackageName plainLib ''mypkg'' = []
   \<and> isASCII ''myPkg'' \<and> ''myPkg'' \<noteq> ToLower plainLib ''myPkg''
   \<and> ''mypkg'' = ToLower plainLib ''mypkg''"
  using validatePackageName_rules [of "''my_Pkg''" plainLib]
    validatePackageName_rules [of "''myPkg''" plainLib]
    validatePackageName_rules [of "''mypkg''" plainLib]
  by (simp add: byte_def isASCII_def)

section \<open>Properties of the traversal\<close>

lemma collect_member:
  "collect rs = Inr ds \<Longrightarrow> r \<in> set rs \<Longrightarrow> \<exists>d. r = Inr d \<and> set d \<subseteq> set ds"
proof (induction rs arbitrary: ds)
  case Nil
  then show ?case by simp
next
  case (Cons a rs)
  from Cons.prems(1) obtain d1 d2 where
    a: "a = Inr d1" and rs: "collect rs = Inr d2" and ds: "ds = d1 @ d2"
    by (auto split: sum.splits)
  show ?case
  proof (cases "r = a")
    case True
    with a ds show ?thesis by simp
  next
    case False
    with Cons.prems(2) have "r \<in> set rs" by simp
    from Cons.IH [OF rs this] ds show ?thesis by auto
  qed
qed

lemma collect_all:
  "collect rs = Inr ds \<Longrightarrow> \<forall>r\<in>set rs. \<forall>ds'. r = Inr ds' \<longrightarrow> (\<forall>d\<in>set ds'. P d)
     \<Longrightarrow> \<forall>d\<in>set ds. P d"
  by (induction rs arbitrary: ds) (auto split: sum.splits)

lemma collect_Inr: "collect (map Inr dss) = Inr (concat dss)"
  by (induction dss) auto

lemma visit_descends: "visit pkg n = Inr (ds, descend) \<Longrightarrow> descend"
  by (cases n) (auto split: if_splits option.splits node.splits sum.splits)

lemma inspect_step:
  "visit pkg n = Inr (ds, descend) \<Longrightarrow>
     inspect (visit pkg) n =
       (case collect (map (inspect (visit pkg)) (children n)) of
          Inl e \<Rightarrow> Inl e
        | Inr ds' \<Rightarrow> Inr (ds @ ds'))"
  using visit_descends [of pkg n ds descend] by (simp add: inspect.simps)

lemma inspect_child:
  assumes "inspect (visit pkg) n = Inr ds" and "c \<in> set (children n)"
  shows "\<exists>dc. inspect (visit pkg) c = Inr dc \<and> set dc \<subseteq> set ds"
proof -
  from assms(1) obtain d0 go where v: "visit pkg n = Inr (d0, go)"
    by (cases "visit pkg n") (auto simp: inspect.simps)
  with assms(1) obtain ds' where
    c: "collect (map (inspect (visit pkg)) (children n)) = Inr ds'" and ds: "ds = d0 @ ds'"
    by (auto simp: inspect_step split: sum.splits)
  from assms(2) have "inspect (visit pkg) c \<in> set (map (inspect (visit pkg)) (children n))"
    by simp
  from collect_member [OF c this] ds show ?thesis
    by auto
qed

lemma not_literal_message:
  "functionNoComment name \<noteq> literalInConditional"
  "functionCommentPrefix name \<noteq> literalInConditional"
  "constantBlockNoComment \<noteq> literalInConditional"
  "constantsSeparated names \<noteq> literalInConditional"
  "constantNoComment name \<noteq> literalInConditional"
  "constantCommentPrefix name \<noteq> literalInConditional"
  "typeBlockNoComment \<noteq> literalInConditional"
  "typeNoComment name \<noteq> literalInConditional"
  "typeCommentPrefix name \<noteq> literalInConditional"
  by (simp_all add: literalInConditional_def functionNoComment_def functionCommentPrefix_def
      constantBlockNoComment_def constantsSeparated_def constantNoComment_def
      constantCommentPrefix_def typeBlockNoComment_def typeNoComment_def typeCommentPrefix_def)

lemma not_block_message:
  "constantsSeparated names \<noteq> constantBlockNoComment"
  "constantNoComment name \<noteq> constantBlockNoComment"
  "constantCommentPrefix name \<noteq> constantBlockNoComment"
  "typeNoComment name \<noteq> typeBlockNoComment"
  "typeCommentPrefix name \<noteq> typeBlockNoComment"
  by (simp_all add: constantBlockNoComment_def constantsSeparated_def constantNoComment_def
      constantCommentPrefix_def typeBlockNoComment_def typeNoComment_def typeCommentPrefix_def)



lemma constSpec_messages:
  assumes "constSpec lparen declDoc spec = Inr ds" and "d \<in> set ds"
  shows "Message d \<noteq> literalInConditional \<and> Message d \<noteq> constantBlockNoComment"
proof (cases spec)
  case (ValueSpec specDoc names ty vals)
  show ?thesis
  proof (cases "1 < length names")
    case True
    with ValueSpec assms show ?thesis
      by (auto simp: constSpec_def not_literal_message not_block_message)
  next
    case False
    with ValueSpec assms show ?thesis
      by (cases names; cases "if \<not> IsValid lparen then declDoc else specDoc")
        (auto simp: constSpec_def Let_def not_literal_message not_block_message split: if_splits)
  qed
qed (use assms in \<open>simp_all add: constSpec_def\<close>)

lemma typeSpec_messages:
  assumes "d \<in> set (typeSpec lparen declDoc spec)"
  shows "Message d \<noteq> literalInConditional \<and> Message d \<noteq> typeBlockNoComment"
proof (cases spec)
  case (TypeSpec specDoc name ty)
  with assms show ?thesis
    by (cases "if \<not> IsValid lparen then declDoc else specDoc")
      (auto simp: typeSpec_def Let_def not_literal_message not_block_message split: if_splits)
qed (use assms in \<open>simp_all add: typeSpec_def\<close>)

lemma constSpecs_messages:
  assumes "collect (map (constSpec lparen declDoc) specs) = Inr ds" and "d \<in> set ds"
  shows "Message d \<noteq> literalInConditional \<and> Message d \<noteq> constantBlockNoComment"
proof -
  have "\<forall>r\<in>set (map (constSpec lparen declDoc) specs). \<forall>ds'. r = Inr ds' \<longrightarrow>
      (\<forall>d\<in>set ds'. Message d \<noteq> literalInConditional \<and> Message d \<noteq> constantBlockNoComment)"
    using constSpec_messages by auto
  from collect_all [OF assms(1) this] assms(2) show ?thesis
    by blast
qed

lemma literalOperand_cases:
  "literalOperand (BasicLit p v) = [Diagnostic p literalInConditional]"
  "\<not> isBasicLit n \<Longrightarrow> literalOperand n = []"
  by (auto simp: literalOperand_def isBasicLit_def split: node.splits)

lemma TrimSpace_examples:
  "TrimSpace ''foo does\<newline>'' = ''foo does''"
  "TrimSpace ''does foo\<newline>'' = ''does foo''"
  "TrimSpace ''foobar does things\<newline>'' = ''foobar does things''"
  by (simp_all add: TrimSpace_def spaceRunes_def HasPrefix_def)

section \<open>Function declarations\<close>

text \<open>
  Claim C4. A function declaration that is neither \<^verbatim>\<open>main\<close> in the package \<^verbatim>\<open>main\<close> nor
  named \<^verbatim>\<open>init\<close> has one of three outcomes, which exclude each other: without a doc
  comment, the one diagnostic that no comment is associated with it; with a doc comment
  whose trimmed text does not start with the name, the one diagnostic that the comment
  should begin with the name; with a doc comment whose trimmed text starts with the name,
  no diagnostic. The two messages differ. For \<^verbatim>\<open>main\<close> in the package \<^verbatim>\<open>main\<close> and for
  \<^verbatim>\<open>init\<close> nothing is reported at the declaration, the traversal goes on
  through its children, and the diagnostics found in its body are among those of the
  declaration.
\<close>

theorem function_comment_outcomes:
  "(\<not> (pkg = ''main'' \<and> Name name = ''main'') \<and> Name name \<noteq> ''init'' \<longrightarrow>
      (doc = None \<longrightarrow>
         visit pkg (FuncDecl doc recv name p type body)
           = Inr ([Diagnostic p (functionNoComment (Name name))], True))
      \<and> (\<forall>text. doc = Some text \<and> \<not> HasPrefix (TrimSpace text) (Name name) \<longrightarrow>
         visit pkg (FuncDecl doc recv name p type body)
           = Inr ([Diagnostic p (functionCommentPrefix (Name name))], True))
      \<and> (\<forall>text. doc = Some text \<and> HasPrefix (TrimSpace text) (Name name) \<longrightarrow>
         visit pkg (FuncDecl doc recv name p type body) = Inr ([], True)))
   \<and> ((pkg = ''main'' \<and> Name name = ''main'') \<or> Name name = ''init'' \<longrightarrow>
      visit pkg (FuncDecl doc recv name p type body) = Inr ([], True)
      \<and> inspect (visit pkg) (FuncDecl doc recv name p type body)
          = collect (map (inspect (visit pkg))
              (docNode doc @ optNode recv @ [IdentNode name, type] @ optNode body))
      \<and> (\<forall>b ds. body = Some b
            \<and> inspect (visit pkg) (FuncDecl doc recv name p type body) = Inr ds \<longrightarrow>
            (\<exists>db. inspect (visit pkg) b = Inr db \<and> set db \<subseteq> set ds)))
   \<and> functionNoComment (Name name) \<noteq> functionCommentPrefix (Name name)"
proof -
  have exempt: "inspect (visit pkg) (FuncDecl doc recv name p type body)
      = collect (map (inspect (visit pkg))
          (docNode doc @ optNode recv @ [IdentNode name, type] @ optNode body))"
    if "visit pkg (FuncDecl doc recv name p type body) = Inr ([], True)"
    using inspect_step [OF that] by (simp split: sum.splits)
  have body: "\<exists>db. inspect (visit pkg) b = Inr db \<and> set db \<subseteq> set ds"
    if "body = Some b" "inspect (visit pkg) (FuncDecl doc recv name p type body) = Inr ds"
    for b ds
    using inspect_child [OF that(2), of b] that(1) by (simp add: optNode_def)
  have msgs: "functionNoComment (Name name) \<noteq> functionCommentPrefix (Name name)"
    by (simp add: functionNoComment_def functionCommentPrefix_def)
  show ?thesis
    using exempt body msgs by (auto split: option.splits)
qed

theorem function_comment_outcomes_witness:
  "visit ''mypkg'' (funcFoo None) = Inr ([Diagnostic 1 (functionNoComment ''foo'')], True)
   \<and> visit ''mypkg'' (funcFoo (Some ''does foo\<newline>''))
       = Inr ([Diagnostic 1 (functionCommentPrefix ''foo'')], True)
   \<and> visit ''mypkg'' (funcFoo (Some ''foo does\<newline>'')) = Inr ([], True)
   \<and> visit ''main'' funcMain = Inr ([], True)
   \<and> inspect (visit ''main'') funcMain = Inr [Diagnostic 35 literalInConditional]
   \<and> visit ''mypkg'' funcInit = Inr ([], True)
   \<and> inspect (visit ''mypkg'') funcInit = Inr [Diagnostic 35 literalInConditional]"
  using function_comment_outcomes [where pkg = "''mypkg''" and doc = None and recv = None
      and name = "Ident 6 ''foo''" and p = 1 and type = "Other []" and body = "Some emptyBlock"]
    function_comment_outcomes [where pkg = "''mypkg''" and doc = "Some ''does foo\<newline>''"
      and recv = None and name = "Ident 6 ''foo''" and p = 1 and type = "Other []"
      and body = "Some emptyBlock"]
    function_comment_outcomes [where pkg = "''mypkg''" and doc = "Some ''foo does\<newline>''"
      and recv = None and name = "Ident 6 ''foo''" and p = 1 and type = "Other []"
      and body = "Some emptyBlock"]
    function_comment_outcomes [where pkg = "''main''" and doc = None and recv = None
      and name = "Ident 6 ''main''" and p = 1 and type = "Other []"
      and body = "Some (Other [ifXEquals5])"]
    function_comment_outcomes [where pkg = "''mypkg''" and doc = None and recv = None
      and name = "Ident 6 ''init''" and p = 1 and type = "Other []"
      and body = "Some (Other [ifXEquals5])"]
  by (simp add: funcFoo_def funcMain_def funcInit_def ifXEquals5_def identX_def literal5_def
      emptyBlock_def TrimSpace_examples HasPrefix_def inspect.simps docNode_def optNode_def
      literalOperand_def)

section \<open>Literals in the condition of an if statement\<close>

text \<open>
  Claim C5. At an if statement whose condition is a binary expression, one diagnostic
  \<^verbatim>\<open>literal found in conditional\<close> is reported for each of the two operands that is
  itself a basic literal, at the position of that literal, and none for an operand that
  is not: two when both are literals, one when one is, none when neither is. An
  identifier, a nested binary expression, a parenthesised expression, a call and any
  other kind of node is no basic literal.
\<close>

theorem literal_operands:
  "(\<forall>p v q w. x = BasicLit p v \<and> y = BasicLit q w \<longrightarrow>
      visit pkg (IfStmt init (BinaryExpr x op y) body els)
        = Inr ([Diagnostic p literalInConditional, Diagnostic q literalInConditional], True))
   \<and> (\<forall>p v. x = BasicLit p v \<and> \<not> isBasicLit y \<longrightarrow>
      visit pkg (IfStmt init (BinaryExpr x op y) body els)
        = Inr ([Diagnostic p literalInConditional], True))
   \<and> (\<forall>q w. \<not> isBasicLit x \<and> y = BasicLit q w \<longrightarrow>
      visit pkg (IfStmt init (BinaryExpr x op y) body els)
        = Inr ([Diagnostic q literalInConditional], True))
   \<and> (\<not> isBasicLit x \<and> \<not> isBasicLit y \<longrightarrow>
      visit pkg (IfStmt init (BinaryExpr x op y) body els) = Inr ([], True))
   \<and> \<not> isBasicLit (IdentNode i) \<and> \<not> isBasicLit (BinaryExpr a op' b)
   \<and> \<not> isBasicLit (ParenExpr a) \<and> \<not> isBasicLit (CallExpr f args)
   \<and> \<not> isBasicLit (Other ns)"
  by (simp add: literalOperand_cases) (simp add: isBasicLit_def)

theorem literal_operands_witness:
  "visit ''mypkg'' (IfStmt None (BinaryExpr identX tok_EQL literal5) emptyBlock None)
     = Inr ([Diagnostic 35 literalInConditional], True)
   \<and> visit ''mypkg'' (IfStmt None (BinaryExpr identX tok_EQL identY) emptyBlock None)
     = Inr ([], True)
   \<and> visit ''mypkg'' (IfStmt None (BinaryExpr literal7 tok_EQL literal5) emptyBlock None)
     = Inr ([Diagnostic 30 literalInConditional, Diagnostic 35 literalInConditional], True)
   \<and> visit ''mypkg'' (IfStmt None (BinaryExpr literal7 tok_LSS identY) emptyBlock None)
     = Inr ([Diagnostic 30 literalInConditional], True)"
  using literal_operands [where x = identX and y = literal5 and pkg = "''mypkg''"
      and init = None and op = tok_EQL and body = emptyBlock and els = None]
    literal_operands [where x = identX and y = identY and pkg = "''mypkg''"
      and init = None and op = tok_EQL and body = emptyBlock and els = None]
    literal_operands [where x = literal7 and y = literal5 and pkg = "''mypkg''"
      and init = None and op = tok_EQL and body = emptyBlock and els = None]
    literal_operands [where x = literal7 and y = identY and pkg = "''mypkg''"
      and init = None and op = tok_LSS and body = emptyBlock and els = None]
  by (simp add: identX_def identY_def literal5_def literal7_def isBasicLit_def)

text \<open>
  Claim C10. The rule belongs to if statements alone. When the condition of an if
  statement is a binary expression, the diagnostics are those of its two operands,
  whatever the operator; when the condition is no binary expression, nothing is reported
  at the statement; a node of any other kind never gets the diagnostic
  \<^verbatim>\<open>literal found in conditional\<close>. Whenever the function returns it returns
  \<^verbatim>\<open>true\<close>, and the traversal goes on through the children of the node.
\<close>

theorem literal_rule_scope:
  "visit pkg (IfStmt init (BinaryExpr x op y) body els)
     = Inr (literalOperand x @ literalOperand y, True)
   \<and> ((\<forall>x op y. cond \<noteq> BinaryExpr x op y) \<longrightarrow>
        visit pkg (IfStmt init cond body els) = Inr ([], True))
   \<and> ((\<forall>init cond body els. n \<noteq> IfStmt init cond body els) \<longrightarrow>
        (\<forall>ds descend. visit pkg n = Inr (ds, descend) \<longrightarrow>
           (\<forall>d\<in>set ds. Message d \<noteq> literalInConditional)))
   \<and> (\<forall>ds descend. visit pkg n = Inr (ds, descend) \<longrightarrow>
        descend
        \<and> inspect (visit pkg) n =
            (case collect (map (inspect (visit pkg)) (children n)) of
               Inl e \<Rightarrow> Inl e
             | Inr ds' \<Rightarrow> Inr (ds @ ds')))"
proof -
  have cond: "visit pkg (IfStmt init cond body els) = Inr ([], True)"
    if "\<forall>x op y. cond \<noteq> BinaryExpr x op y"
    using that by (cases cond) auto
  have other: "Message d \<noteq> literalInConditional"
    if "\<forall>init cond body els. n \<noteq> IfStmt init cond body els"
      and "visit pkg n = Inr (ds, descend)" and "d \<in> set ds"
    for ds descend d
  proof (cases n)
    case (FuncDecl doc recv name p ty body)
    with that(2,3) show ?thesis
      by (auto simp: not_literal_message split: if_splits option.splits)
  next
    case (GenDecl doc tokPos tok lparen specs)
    with that(2,3) show ?thesis
      using constSpecs_messages [of lparen doc specs _ d] typeSpec_messages [of d lparen doc]
      by (auto simp: not_literal_message split: if_splits sum.splits)
  qed (use that in auto)
  have c1: "visit pkg (IfStmt init (BinaryExpr x op y) body els)
      = Inr (literalOperand x @ literalOperand y, True)"
    by simp
  have c2: "(\<forall>x op y. cond \<noteq> BinaryExpr x op y) \<longrightarrow>
      visit pkg (IfStmt init cond body els) = Inr ([], True)"
    using cond by blast
  have c3: "(\<forall>init cond body els. n \<noteq> IfStmt init cond body els) \<longrightarrow>
      (\<forall>ds descend. visit pkg n = Inr (ds, descend) \<longrightarrow>
         (\<forall>d\<in>set ds. Message d \<noteq> literalInConditional))"
    using other by blast
  have c4: "\<forall>ds descend. visit pkg n = Inr (ds, descend) \<longrightarrow>
      descend
      \<and> inspect (visit pkg) n =
          (case collect (map (inspect (visit pkg)) (children n)) of
             Inl e \<Rightarrow> Inl e
           | Inr ds' \<Rightarrow> Inr (ds @ ds'))"
    using visit_descends inspect_step by blast
  show ?thesis
    by (intro conjI c1 c2 c3 c4)
qed

theorem literal_rule_scope_witness:
  "visit ''mypkg'' (IfStmt None (BinaryExpr literal7 tok_ADD identY) emptyBlock None)
     = Inr ([Diagnostic 30 literalInConditional], True)
   \<and> visit ''mypkg'' (IfStmt None identX emptyBlock None) = Inr ([], True)
   \<and> visit ''mypkg'' forLoop = Inr ([], True)
   \<and> inspect (visit ''mypkg'') forLoop = Inr []"
  using literal_rule_scope [where pkg = "''mypkg''" and init = None and x = literal7
      and op = tok_ADD and y = identY and body = emptyBlock and els = None and cond = identX
      and n = forLoop]
  by (simp add: forLoop_def literal7_def identX_def identY_def emptyBlock_def
      literalOperand_def inspect.simps)

end
